theory Spec2Isabelle
  imports Main "HOL-Library.AList" "HOL-Library.Sublist"
begin

section \<open>Python values, dictionaries and strings\<close>

text \<open>
  The agent of \<^verbatim>\<open>data_visualization_agent.py\<close> threads a Python dictionary (the
  \<^verbatim>\<open>GraphState\<close>) through its stages. Dictionaries are association lists in insertion
  order with string keys; their values are dynamically typed.
\<close>

datatype pyval =
    VNone
  | VBool bool
  | VInt int
  | VStr string
  | VList "pyval list"
  | VDict "(string \<times> pyval) list"
  | VFrame pyval
  | VMarkdown string

type_synonym pydict = "(string \<times> pyval) list"

text \<open>\<^verbatim>\<open>d.get(k, default)\<close> and \<^verbatim>\<open>d.get(k)\<close>; a key bound to \<^verbatim>\<open>None\<close> yields \<^verbatim>\<open>None\<close>,
  not the default.\<close>

definition dict_get :: "pydict \<Rightarrow> string \<Rightarrow> pyval \<Rightarrow> pyval" where
  "dict_get d k dflt = (case map_of d k of None \<Rightarrow> dflt | Some v \<Rightarrow> v)"

definition state_get :: "pydict \<Rightarrow> string \<Rightarrow> pyval" where
  "state_get d k = dict_get d k VNone"

text \<open>Python truth value of an object.\<close>

fun py_truthy :: "pyval \<Rightarrow> bool" where
  "py_truthy VNone = False"
| "py_truthy (VBool b) = b"
| "py_truthy (VInt i) = (i \<noteq> 0)"
| "py_truthy (VStr s) = (s \<noteq> [])"
| "py_truthy (VList xs) = (xs \<noteq> [])"
| "py_truthy (VDict d) = (d \<noteq> [])"
| "py_truthy (VFrame v) = True"
| "py_truthy (VMarkdown s) = True"

text \<open>
  \<^verbatim>\<open>str.strip()\<close>: characters are code points below 256; the white space among them is
  9 to 13, 28 to 32, 133 and 160.
\<close>

definition is_space :: "char \<Rightarrow> bool" where
  "is_space c = ((of_char c :: nat) \<in> {9, 10, 11, 12, 13, 28, 29, 30, 31, 32, 133, 160})"

definition strip :: "string \<Rightarrow> string" where
  "strip s = rev (dropWhile is_space (rev (dropWhile is_space s)))"

definition newline :: char where
  "newline = CHR 0x0A"

text \<open>\<^verbatim>\<open>sep.join(xs)\<close>.\<close>

fun join :: "string \<Rightarrow> string list \<Rightarrow> string" where
  "join sep [] = []"
| "join sep [x] = x"
| "join sep (x # y # ys) = x @ sep @ join sep (y # ys)"

datatype error = TypeError | AttributeError | ValueError


section \<open>Collaborators and the outside world\<close>

text \<open>
  The language model, the dataset summariser, the text transforms on generated code and
  the sandbox that runs generated code live outside this file. They are parameters of the
  model. A chain \<^verbatim>\<open>prompt | llm\<close> is a function of the prompt template in use and the
  dictionary of its input variables; it returns the content of the model's message.
\<close>

datatype prompt = RecommendStepsPrompt | ChartGeneratorPrompt | FixCodePrompt | ExplainCodePrompt

type_synonym llm = "prompt \<Rightarrow> pydict \<Rightarrow> string"

record collaborators =
  get_dataframe_summary :: "pyval list \<Rightarrow> int \<Rightarrow> string list"
  format_agent_name :: "string \<Rightarrow> string"
  PythonOutputParser :: "string \<Rightarrow> string"
  relocate_imports_inside_function :: "string \<Rightarrow> string"
  add_comments_to_top :: "string \<Rightarrow> string \<Rightarrow> string"
  plotly_from_dict :: "pyval \<Rightarrow> pyval"
  run_agent_function :: "pyval \<Rightarrow> string \<Rightarrow> pyval \<Rightarrow> string + pydict"
  unique_file_name :: "string list \<Rightarrow> string \<Rightarrow> string \<Rightarrow> string"
  py_repr :: "pyval \<Rightarrow> string"

text \<open>
  What the code does to its environment is recorded in a \<open>world\<close>: the lines printed, the
  directories and files that exist, and the number of calls made to the dataset
  summariser.
\<close>

record world =
  cwd :: string
  stdout :: "string list"
  dirs :: "string list"
  files :: "(string \<times> string) list"
  summary_calls :: nat

definition print :: "string \<Rightarrow> world \<Rightarrow> world" where
  "print line w = w\<lparr>stdout := stdout w @ [line]\<rparr>"

definition path_exists :: "world \<Rightarrow> string \<Rightarrow> bool" where
  "path_exists w p = (p \<in> set (dirs w) \<or> p \<in> set (map fst (files w)))"

definition makedirs :: "string \<Rightarrow> world \<Rightarrow> world" where
  "makedirs p w = w\<lparr>dirs := dirs w @ [p]\<rparr>"

definition write_file :: "string \<Rightarrow> string \<Rightarrow> world \<Rightarrow> world" where
  "write_file p text w = w\<lparr>files := AList.update p text (files w)\<rparr>"

definition os_path_join :: "string \<Rightarrow> string \<Rightarrow> string" where
  "os_path_join a b =
     (if b \<noteq> [] \<and> hd b = CHR ''/'' then b
      else if a = [] \<or> last a = CHR ''/'' then a @ b
      else a @ ''/'' @ b)"

definition AGENT_NAME :: string where
  "AGENT_NAME = ''data_visualization_agent''"

definition LOG_PATH :: "world \<Rightarrow> string" where
  "LOG_PATH w = os_path_join (cwd w) ''logs/''"

text \<open>The call \<^verbatim>\<open>get_dataframe_summary([df], n_sample=n_samples, skip_stats=False)\<close>.\<close>

definition summarize :: "collaborators \<Rightarrow> pyval list \<Rightarrow> int \<Rightarrow> world \<Rightarrow> string list \<times> world" where
  "summarize ext dfs n w = (get_dataframe_summary ext dfs n, w\<lparr>summary_calls := Suc (summary_calls w)\<rparr>)"

section \<open>Parameters of the agent\<close>

record config =
  model :: llm
  n_samples :: int
  log :: bool
  log_path :: "string option"
  file_name :: string
  overwrite :: bool
  human_in_the_loop :: bool
  bypass_recommended_steps :: bool
  bypass_explain_code :: bool

definition default_config :: "llm \<Rightarrow> config" where
  "default_config m =
     \<lparr>model = m, n_samples = 30, log = False, log_path = None,
      file_name = ''data_visualization.py'', overwrite = True, human_in_the_loop = False,
      bypass_recommended_steps = False, bypass_explain_code = False\<rparr>"


section \<open>The workflow state and its stages\<close>

text \<open>
  \<^verbatim>\<open>GraphState\<close> declares \<^verbatim>\<open>messages\<close> with the reducer \<^verbatim>\<open>operator.add\<close> and every other
  key without one: a stage's partial update is merged key by key, a list of messages is
  concatenated to the stored one, any other value replaces the stored one.
\<close>

definition merge_value :: "string \<Rightarrow> pyval \<Rightarrow> pyval \<Rightarrow> pyval" where
  "merge_value k old new =
     (if k = ''messages'' then
        (case (old, new) of (VList xs, VList ys) \<Rightarrow> VList (xs @ ys) | _ \<Rightarrow> new)
      else new)"

fun apply_update :: "pydict \<Rightarrow> pydict \<Rightarrow> pydict" where
  "apply_update state [] = state"
| "apply_update state ((k, v) # upd) =
     apply_update (AList.update k (merge_value k (state_get state k) v) state) upd"

datatype node =
    Chart_instructor
  | Human_review
  | Chart_generator
  | Execute_data_visualization_code
  | Fix_data_visualization_code
  | Explain_data_visualization_code
  | End

definition recommended_steps_label :: string where
  "recommended_steps_label = [newline, newline] @ ''# Recommended Data Cleaning Steps:'' @ [newline]"

definition chart_instructor :: "collaborators \<Rightarrow> config \<Rightarrow> pydict \<Rightarrow> world \<Rightarrow> pydict \<times> world" where
  "chart_instructor ext c state w0 =
     (let w1 = print (format_agent_name ext AGENT_NAME) w0;
          w2 = print ''    * CREATE CHART GENERATOR INSTRUCTIONS'' w1;
          data_raw = state_get state ''data_raw'';
          df = VFrame data_raw;
          (all_datasets_summary, w3) = summarize ext [df] (n_samples c) w2;
          all_datasets_summary_str = join [newline, newline] all_datasets_summary;
          recommended_steps = model c RecommendStepsPrompt
            [(''user_instructions'', state_get state ''user_instructions''),
             (''recommended_steps'', state_get state ''recommended_steps''),
             (''all_datasets_summary'', VStr all_datasets_summary_str)]
      in ([(''recommended_steps'', VStr (recommended_steps_label @ strip recommended_steps)),
           (''all_datasets_summary'', VStr all_datasets_summary_str)], w3))"

text \<open>
  Modelled from the spec: \<^verbatim>\<open>log_ai_function\<close> of \<^verbatim>\<open>tools/logging.py\<close> is not part of the
  sources at hand. The logging collaborator persists the code text under a base name in a
  directory and returns the path and the final name; with \<^verbatim>\<open>overwrite\<close> off and the file
  present it picks a distinct name; when disabled it returns an empty path and does not
  touch the file system. An absent directory falls back to \<^verbatim>\<open>LOG_PATH\<close>, as in the
  constructor of the graph.
\<close>

definition log_ai_function ::
  "collaborators \<Rightarrow> string \<Rightarrow> string \<Rightarrow> bool \<Rightarrow> string option \<Rightarrow> bool \<Rightarrow> world \<Rightarrow> (pyval \<times> pyval) \<times> world" where
  "log_ai_function ext response fname enabled directory overwr w =
     (if enabled then
        (let d = (case directory of None \<Rightarrow> LOG_PATH w | Some p \<Rightarrow> p);
             name = (if \<not> overwr \<and> path_exists w (os_path_join d fname)
                     then unique_file_name ext (map fst (files w)) d fname
                     else fname);
             path = os_path_join d name
         in ((VStr path, VStr name), write_file path response w))
      else ((VNone, VNone), w))"

definition chart_generator :: "collaborators \<Rightarrow> config \<Rightarrow> pydict \<Rightarrow> world \<Rightarrow> pydict \<times> world" where
  "chart_generator ext c state w0 =
     (let w1 = print ''    * CREATE DATA VISUALIZATION CODE'' w0;
          (all_datasets_summary_str, chart_generator_instructions, w2) =
            (if bypass_recommended_steps c then
               (let w1a = print (format_agent_name ext AGENT_NAME) w1;
                    data_raw = state_get state ''data_raw'';
                    df = VFrame data_raw;
                    (all_datasets_summary, w1b) = summarize ext [df] (n_samples c) w1a
                in (VStr (join [newline, newline] all_datasets_summary),
                    state_get state ''user_instructions'', w1b))
             else (state_get state ''all_datasets_summary'', state_get state ''recommended_steps'', w1));
          response = PythonOutputParser ext (model c ChartGeneratorPrompt
            [(''chart_generator_instructions'', chart_generator_instructions),
             (''all_datasets_summary'', all_datasets_summary_str)]);
          response1 = relocate_imports_inside_function ext response;
          response2 = add_comments_to_top ext response1 AGENT_NAME;
          ((file_path, file_name_2), w3) =
            log_ai_function ext response2 (file_name c) (log c) (log_path c) (overwrite c) w2
      in ([(''data_visualization_function'', VStr response2),
           (''data_visualization_function_path'', file_path),
           (''data_visualization_function_name'', file_name_2),
           (''all_datasets_summary'', all_datasets_summary_str)], w3))"


text \<open>
  Modelled from the spec: \<^verbatim>\<open>node_func_human_review\<close> of the templates is not part of the
  sources at hand. The gate presents a fixed prompt and waits for a textual verdict;
  \<^verbatim>\<open>yes\<close>, trimmed and without regard to case, is the sole affirmative token and advances
  to \<^verbatim>\<open>yes_goto\<close>; any other text replaces \<^verbatim>\<open>user_instructions\<close> and routes to
  \<^verbatim>\<open>no_goto\<close>. The result is the pair of a \<^verbatim>\<open>Command\<close>: the next node and the update.
\<close>

definition lower_char :: "char \<Rightarrow> char" where
  "lower_char c =
     (case map_of (zip ''ABCDEFGHIJKLMNOPQRSTUVWXYZ'' ''abcdefghijklmnopqrstuvwxyz'') c of
        Some l \<Rightarrow> l
      | None \<Rightarrow> c)"

definition lower :: "string \<Rightarrow> string" where
  "lower s = map lower_char s"

definition node_func_human_review ::
  "pydict \<Rightarrow> string \<Rightarrow> node \<Rightarrow> node \<Rightarrow> string \<Rightarrow> string \<Rightarrow> string option \<Rightarrow> string \<Rightarrow> node \<times> pydict" where
  "node_func_human_review state prompt_text yes_goto no_goto user_instructions_key
       recommended_steps_key code_snippet_key user_input =
     (if lower (strip user_input) = ''yes'' then (yes_goto, [])
      else (no_goto, [(user_instructions_key, VStr user_input)]))"

definition prompt_text_human_review :: string where
  "prompt_text_human_review =
     ''Are the following data visualization instructions correct? (Answer 'yes' or provide modifications)''
     @ [newline] @ ''{steps}''"

text \<open>
  The source binds \<^verbatim>\<open>human_review\<close> three times. The first binding (affirmative verdict
  to \<^verbatim>\<open>chart_generator\<close>) is always replaced by one of the two that follow it, chosen by
  \<^verbatim>\<open>bypass_explain_code\<close>; the node function in the graph is that last binding.
\<close>

definition human_review :: "config \<Rightarrow> pydict \<Rightarrow> string \<Rightarrow> node \<times> pydict" where
  "human_review c state user_input =
     (if \<not> bypass_explain_code c then
        node_func_human_review state prompt_text_human_review
          Explain_data_visualization_code Chart_instructor
          ''user_instructions'' ''recommended_steps'' (Some ''data_visualization_function'') user_input
      else
        node_func_human_review state prompt_text_human_review
          End Chart_instructor
          ''user_instructions'' ''recommended_steps'' (Some ''data_visualization_function'') user_input)"



text \<open>
  Modelled from the spec: \<^verbatim>\<open>node_func_execute_agent_code_on_data\<close> of the templates is not
  part of the sources at hand. The stage loads the function of the required name from the
  generated source and calls it on the pre-processed dataset inside the sandbox, which
  returns a structured result or fails with a message. On success the result is set and
  the error cleared; on failure the error is set to the prefixed diagnostic and the result
  left empty.
\<close>

definition node_func_execute_agent_code_on_data ::
  "collaborators \<Rightarrow> pydict \<Rightarrow> string \<Rightarrow> string \<Rightarrow> string \<Rightarrow> string \<Rightarrow> string \<Rightarrow> (pyval \<Rightarrow> pyval) \<Rightarrow> string \<Rightarrow> pydict" where
  "node_func_execute_agent_code_on_data ext state data_key result_key error_key code_snippet_key
       agent_function_name pre_processing error_message_prefix =
     (case run_agent_function ext (state_get state code_snippet_key) agent_function_name
             (pre_processing (state_get state data_key)) of
        Inr result \<Rightarrow> [(result_key, VDict result), (error_key, VNone)]
      | Inl exn \<Rightarrow> [(result_key, VNone), (error_key, VStr (error_message_prefix @ exn))])"

definition execute_data_visualization_code :: "collaborators \<Rightarrow> pydict \<Rightarrow> pydict" where
  "execute_data_visualization_code ext state =
     node_func_execute_agent_code_on_data ext state ''data_raw'' ''plotly_graph''
       ''data_visualization_error'' ''data_visualization_function'' ''data_visualization''
       (\<lambda>data. VFrame data) ''An error occurred during data visualization: ''"

text \<open>
  Modelled from the spec: \<^verbatim>\<open>node_func_fix_agent_code\<close> of the templates is not part of the
  sources at hand. The stage asks the model for a corrected function from the broken code
  and the last error, under the contract of the synthesis stage, increments
  \<^verbatim>\<open>retry_count\<close>, and persists the corrected code under the same file when logging is
  enabled. Adding one to a \<^verbatim>\<open>retry_count\<close> that is not an integer is a \<^verbatim>\<open>TypeError\<close>.
\<close>

definition node_func_fix_agent_code ::
  "collaborators \<Rightarrow> pydict \<Rightarrow> string \<Rightarrow> string \<Rightarrow> llm \<Rightarrow> prompt \<Rightarrow> string \<Rightarrow> bool \<Rightarrow> pyval \<Rightarrow> world \<Rightarrow> error + (pydict \<times> world)" where
  "node_func_fix_agent_code ext state code_snippet_key error_key m prompt_template agent_name
       enabled file_path w =
     (let response = PythonOutputParser ext (m prompt_template
            [(''code_snippet'', state_get state code_snippet_key),
             (''error'', state_get state error_key)]);
          response1 = relocate_imports_inside_function ext response;
          response2 = add_comments_to_top ext response1 agent_name;
          w1 = (if enabled then (case file_path of VStr p \<Rightarrow> write_file p response2 w | _ \<Rightarrow> w) else w)
      in case state_get state ''retry_count'' of
           VInt r \<Rightarrow> Inr ([(code_snippet_key, VStr response2), (''retry_count'', VInt (r + 1))], w1)
         | _ \<Rightarrow> Inl TypeError)"

definition fix_data_visualization_code ::
  "collaborators \<Rightarrow> config \<Rightarrow> pydict \<Rightarrow> world \<Rightarrow> error + (pydict \<times> world)" where
  "fix_data_visualization_code ext c state w =
     node_func_fix_agent_code ext state ''data_visualization_function'' ''data_visualization_error''
       (model c) FixCodePrompt AGENT_NAME (log c) (state_get state ''data_visualization_function_path'') w"

text \<open>
  Modelled from the spec: \<^verbatim>\<open>node_func_explain_agent_code\<close> of the templates is not part of
  the sources at hand. Without an error the model is asked once for a summary of the code,
  which is appended to the messages under a fixed prefix; with an error present a fixed
  failure message is emitted instead.
\<close>

definition message :: "string \<Rightarrow> string \<Rightarrow> pyval" where
  "message role content = VDict [(''role'', VStr role), (''content'', VStr content)]"

definition node_func_explain_agent_code ::
  "pydict \<Rightarrow> string \<Rightarrow> string \<Rightarrow> string \<Rightarrow> llm \<Rightarrow> string \<Rightarrow> prompt \<Rightarrow> string \<Rightarrow> string \<Rightarrow> pydict" where
  "node_func_explain_agent_code state code_snippet_key result_key error_key m role
       explanation_prompt_template success_prefix error_message =
     (if \<not> py_truthy (state_get state error_key) then
        [(result_key, VList [message role
           (success_prefix @ m explanation_prompt_template [(''code'', state_get state code_snippet_key)])])]
      else [(result_key, VList [message role error_message])])"

definition explain_data_visualization_code :: "config \<Rightarrow> pydict \<Rightarrow> pydict" where
  "explain_data_visualization_code c state =
     node_func_explain_agent_code state ''data_visualization_function'' ''messages''
       ''data_visualization_error'' (model c) AGENT_NAME ExplainCodePrompt
       (''# Data Visualization Agent:'' @ [newline, newline] @ '' '')
       ''The Data Visualization Agent encountered an error during data visualization. No explanation could be provided.''"


section \<open>The graph and its construction\<close>

record graph =
  closure :: config
  error_key :: string
  entry_point :: node
  review_enabled :: bool
  explain_enabled :: bool
  checkpointer :: bool

text \<open>
  Modelled from the spec: \<^verbatim>\<open>create_coding_agent_graph\<close> of the templates is not part of
  the sources at hand. The router fixes the transition table at construction time from
  the three flags. The initial state is the instruction stage unless the bypass is
  configured, in which case synthesis is initial. Instruction leads to synthesis,
  synthesis to execution, repair back to execution. After execution the repair stage is
  entered only when the error is non-empty and \<^verbatim>\<open>retry_count < max_retries\<close>; otherwise
  the cycle is left: for the review gate when human review is enabled (the gate of the
  source advances to the explanation stage or to the end, and shows the generated code),
  else for the explanation stage when enabled, else for the end. The explanation stage is
  terminal. The review gate chooses its own successor.
\<close>

definition create_coding_agent_graph ::
  "config \<Rightarrow> string \<Rightarrow> bool \<Rightarrow> bool \<Rightarrow> bool \<Rightarrow> bool \<Rightarrow> graph" where
  "create_coding_agent_graph node_functions err_key hitl chk bypass_recommended bypass_explain =
     \<lparr>closure = node_functions, error_key = err_key,
      entry_point = (if bypass_recommended then Chart_generator else Chart_instructor),
      review_enabled = hitl, explain_enabled = (\<not> bypass_explain), checkpointer = chk\<rparr>"

text \<open>
  Modelled from the spec: the test the router makes after the execution stage, part of
  \<^verbatim>\<open>create_coding_agent_graph\<close>. The repair stage is entered only when the error is
  non-empty and \<^verbatim>\<open>retry_count < max_retries\<close>; counters that are not integers give no
  retry.
\<close>

definition error_and_can_retry :: "string \<Rightarrow> pydict \<Rightarrow> bool" where
  "error_and_can_retry err_key state =
     (py_truthy (state_get state err_key) \<and>
      (case (state_get state ''retry_count'', state_get state ''max_retries'') of
         (VInt r, VInt m) \<Rightarrow> r < m
       | _ \<Rightarrow> False))"

text \<open>
  Modelled from the spec: where the router goes when it leaves the cycle of execution and
  repair, and its transition table, both part of \<^verbatim>\<open>create_coding_agent_graph\<close>. The
  review gate returns its successor itself, as a \<^verbatim>\<open>Command\<close>, so the table has no edge
  out of it.
\<close>

definition leave_cycle :: "graph \<Rightarrow> node" where
  "leave_cycle g =
     (if review_enabled g then Human_review
      else if explain_enabled g then Explain_data_visualization_code
      else End)"

definition successor :: "graph \<Rightarrow> node \<Rightarrow> pydict \<Rightarrow> node" where
  "successor g n state =
     (case n of
        Chart_instructor \<Rightarrow> Chart_generator
      | Chart_generator \<Rightarrow> Execute_data_visualization_code
      | Fix_data_visualization_code \<Rightarrow> Execute_data_visualization_code
      | Execute_data_visualization_code \<Rightarrow>
          (if error_and_can_retry (error_key g) state then Fix_data_visualization_code
           else leave_cycle g)
      | Explain_data_visualization_code \<Rightarrow> End
      | Human_review \<Rightarrow> Human_review
      | End \<Rightarrow> End)"

definition make_data_visualization_agent :: "config \<Rightarrow> world \<Rightarrow> graph \<times> world" where
  "make_data_visualization_agent p w0 =
     (let (bypass, w1) =
            (if bypass_recommended_steps p \<and> human_in_the_loop p
             then (False, print ''Bypass recommended steps set to False to enable human in the loop.'' w0)
             else (bypass_recommended_steps p, w0));
          (lp, w2) =
            (if log p then
               (let lp1 = (case log_path p of None \<Rightarrow> LOG_PATH w1 | Some d \<Rightarrow> d)
                in (Some lp1, if \<not> path_exists w1 lp1 then makedirs lp1 w1 else w1))
             else (log_path p, w1))
      in (create_coding_agent_graph
            (p\<lparr>bypass_recommended_steps := bypass, log_path := lp\<rparr>)
            ''data_visualization_error'' (human_in_the_loop p) (human_in_the_loop p)
            bypass (bypass_explain_code p), w2))"

section \<open>Running the graph\<close>

text \<open>
  A run is at a node with a workflow state and a world. The verdicts the human reviewer
  will give are listed in advance; a run that arrives at the review gate with none left
  is suspended there. \<open>visited\<close> lists the nodes that have run, oldest first; \<open>raised\<close>
  holds the exception that ended the run, if any.
\<close>

record run_state =
  at :: node
  st :: pydict
  wd :: world
  verdicts :: "string list"
  visited :: "node list"
  raised :: "error option"

definition halted :: "run_state \<Rightarrow> bool" where
  "halted c = (at c = End \<or> raised c \<noteq> None \<or> (at c = Human_review \<and> verdicts c = []))"

definition advance :: "graph \<Rightarrow> run_state \<Rightarrow> pydict \<Rightarrow> world \<Rightarrow> run_state" where
  "advance g c upd w =
     (let s = apply_update (st c) upd
      in c\<lparr>at := successor g (at c) s, st := s, wd := w, visited := visited c @ [at c]\<rparr>)"

definition step :: "collaborators \<Rightarrow> graph \<Rightarrow> run_state \<Rightarrow> run_state" where
  "step ext g c =
     (if halted c then c
      else case at c of
        Chart_instructor \<Rightarrow>
          (let (upd, w) = chart_instructor ext (closure g) (st c) (wd c) in advance g c upd w)
      | Chart_generator \<Rightarrow>
          (let (upd, w) = chart_generator ext (closure g) (st c) (wd c) in advance g c upd w)
      | Execute_data_visualization_code \<Rightarrow>
          advance g c (execute_data_visualization_code ext (st c)) (wd c)
      | Fix_data_visualization_code \<Rightarrow>
          (case fix_data_visualization_code ext (closure g) (st c) (wd c) of
             Inl e \<Rightarrow> c\<lparr>raised := Some e\<rparr>
           | Inr (upd, w) \<Rightarrow> advance g c upd w)
      | Explain_data_visualization_code \<Rightarrow>
          advance g c (explain_data_visualization_code (closure g) (st c)) (wd c)
      | Human_review \<Rightarrow>
          (case verdicts c of
             [] \<Rightarrow> c
           | v # vs \<Rightarrow>
               (let (goto, upd) = human_review (closure g) (st c) v
                in c\<lparr>at := goto, st := apply_update (st c) upd, verdicts := vs,
                     visited := visited c @ [Human_review]\<rparr>))
      | End \<Rightarrow> c)"

text \<open>
  The run is a total function: every step that is taken lowers a measure made of the
  number of verdicts left and a rank of the node, which inside the cycle of execution and
  repair is governed by the retries that remain.
\<close>

definition budget :: "pydict \<Rightarrow> nat" where
  "budget state =
     (case (state_get state ''retry_count'', state_get state ''max_retries'') of
        (VInt r, VInt m) \<Rightarrow> nat (m - r)
      | _ \<Rightarrow> 0)"

definition rank :: "node \<Rightarrow> nat \<Rightarrow> nat" where
  "rank n b =
     (case n of
        Chart_instructor \<Rightarrow> 2 * b + 5
      | Chart_generator \<Rightarrow> 2 * b + 4
      | Execute_data_visualization_code \<Rightarrow> 2 * b + 2
      | Fix_data_visualization_code \<Rightarrow> (if b = 0 then 3 else 2 * b + 1)
      | Explain_data_visualization_code \<Rightarrow> 1
      | Human_review \<Rightarrow> 1
      | End \<Rightarrow> 0)"

definition run_measure :: "run_state \<Rightarrow> nat \<times> nat" where
  "run_measure c =
     (length (verdicts c), if raised c \<noteq> None then 0 else rank (at c) (budget (st c)))"

lemma merge_value_other [simp]: "k \<noteq> ''messages'' \<Longrightarrow> merge_value k old new = new"
  by (simp add: merge_value_def)

lemma state_get_update:
  "state_get (AList.update k v s) k' = (if k' = k then v else state_get s k')"
  by (simp add: state_get_def dict_get_def update_conv')

lemma state_get_Nil: "state_get [] k = VNone"
  by (simp add: state_get_def dict_get_def)

lemma state_get_Cons: "state_get ((k, v) # d) k' = (if k' = k then v else state_get d k')"
  by (simp add: state_get_def dict_get_def)

lemma state_get_apply_update_other:
  "k \<notin> set (map fst upd) \<Longrightarrow> state_get (apply_update s upd) k = state_get s k"
  by (induction upd arbitrary: s) (auto simp: state_get_update)

lemma keys_chart_instructor:
  "map fst (fst (chart_instructor ext c s w)) = [''recommended_steps'', ''all_datasets_summary'']"
  by (simp add: chart_instructor_def Let_def split_def)

lemma keys_chart_generator:
  "map fst (fst (chart_generator ext c s w)) =
     [''data_visualization_function'', ''data_visualization_function_path'',
      ''data_visualization_function_name'', ''all_datasets_summary'']"
  by (simp add: chart_generator_def Let_def split_def)

lemma keys_execute:
  "map fst (execute_data_visualization_code ext s) = [''plotly_graph'', ''data_visualization_error'']"
  by (simp add: execute_data_visualization_code_def node_func_execute_agent_code_on_data_def split: sum.splits)

lemma keys_explain:
  "map fst (explain_data_visualization_code c s) = [''messages'']"
  by (simp add: explain_data_visualization_code_def node_func_explain_agent_code_def)

lemma budget_apply_update:
  "''retry_count'' \<notin> set (map fst upd) \<Longrightarrow> ''max_retries'' \<notin> set (map fst upd) \<Longrightarrow>
   budget (apply_update s upd) = budget s"
  by (simp add: budget_def state_get_apply_update_other)

lemma can_retry_budget: "error_and_can_retry k s \<Longrightarrow> 0 < budget s"
  by (auto simp: error_and_can_retry_def budget_def split: pyval.splits)

lemma step_decreases:
  assumes "\<not> halted c"
  shows "(run_measure (step ext g c), run_measure c) \<in> less_than <*lex*> less_than"
proof (cases "at c")
  case Chart_instructor
  then show ?thesis using assms
    by (simp add: step_def advance_def Let_def split_def run_measure_def halted_def
        successor_def rank_def budget_apply_update keys_chart_instructor)
next
  case Human_review
  then show ?thesis using assms
    by (auto simp: step_def Let_def split_def run_measure_def halted_def split: list.splits)
next
  case Chart_generator
  then show ?thesis using assms
    by (simp add: step_def advance_def Let_def split_def run_measure_def halted_def
        successor_def rank_def budget_apply_update keys_chart_generator)
next
  case Execute_data_visualization_code
  have b: "budget (apply_update (st c) (execute_data_visualization_code ext (st c))) = budget (st c)"
    by (simp add: budget_apply_update keys_execute)
  show ?thesis using assms Execute_data_visualization_code
      can_retry_budget[of "error_key g" "apply_update (st c) (execute_data_visualization_code ext (st c))"]
    by (auto simp: step_def advance_def Let_def run_measure_def halted_def
        successor_def leave_cycle_def rank_def b)
next
  case Fix_data_visualization_code
  show ?thesis
  proof (cases "state_get (st c) ''retry_count''")
    case (VInt r)
    show ?thesis using assms Fix_data_visualization_code VInt
      apply (simp add: step_def advance_def Let_def run_measure_def halted_def
        successor_def rank_def fix_data_visualization_code_def node_func_fix_agent_code_def)
      apply (auto simp: budget_def state_get_update split: pyval.splits)
      done
  qed (use assms Fix_data_visualization_code in \<open>simp_all add: step_def run_measure_def halted_def
        rank_def fix_data_visualization_code_def node_func_fix_agent_code_def Let_def\<close>)
next
  case Explain_data_visualization_code
  then show ?thesis using assms
    by (simp add: step_def advance_def Let_def run_measure_def halted_def
        successor_def rank_def)
next
  case End
  then show ?thesis using assms by (simp add: halted_def)
qed

function run :: "collaborators \<Rightarrow> graph \<Rightarrow> run_state \<Rightarrow> run_state" where
  "run ext g c = (if halted c then c else run ext g (step ext g c))"
  by pat_completeness auto
termination
  by (relation "inv_image (less_than <*lex*> less_than) (\<lambda>(ext, g, c). run_measure c)")
     (auto simp: step_decreases)

declare run.simps [simp del]

text \<open>
  The agent's methods give the compiled graph an input of the four keys below and forward
  their keyword arguments to it.
\<close>

definition agent_input :: "pyval \<Rightarrow> pyval \<Rightarrow> int \<Rightarrow> int \<Rightarrow> pydict" where
  "agent_input user_instructions data_dict max_retries retry_count =
     [(''user_instructions'', user_instructions), (''data_raw'', data_dict),
      (''max_retries'', VInt max_retries), (''retry_count'', VInt retry_count)]"

definition initial_run_state :: "graph \<Rightarrow> pydict \<Rightarrow> world \<Rightarrow> string list \<Rightarrow> run_state" where
  "initial_run_state g inp w vs =
     \<lparr>at = entry_point g, st = apply_update [] inp, wd = w, verdicts = vs, visited = [], raised = None\<rparr>"





section \<open>The agent class\<close>

text \<open>
  \<^verbatim>\<open>self.response\<close> is \<^verbatim>\<open>None\<close>, the dictionary returned by the compiled graph, or the
  coroutine returned by its \<^verbatim>\<open>ainvoke\<close>, not yet awaited, with the input and the keyword
  arguments it was given.
\<close>

datatype response = NoResponse | Final pydict | Coroutine pydict pydict

record agent =
  params :: config
  compiled_graph :: graph
  response :: response

definition make_compiled_graph :: "agent \<Rightarrow> world \<Rightarrow> graph \<times> agent \<times> world" where
  "make_compiled_graph self w =
     (let self1 = self\<lparr>response := NoResponse\<rparr>;
          (g, w1) = make_data_visualization_agent (params self1) w
      in (g, self1, w1))"

definition init :: "config \<Rightarrow> world \<Rightarrow> agent \<times> world" where
  "init p w =
     (let (g, w1) = make_data_visualization_agent p w
      in (\<lparr>params = p, compiled_graph = g, response = NoResponse\<rparr>, w1))"

text \<open>A keyword argument of \<^verbatim>\<open>update_params\<close>: the name of a parameter with its new value.\<close>

datatype kwarg =
    Model llm
  | N_samples int
  | Log bool
  | Log_path "string option"
  | File_name string
  | Overwrite bool
  | Human_in_the_loop bool
  | Bypass_recommended_steps bool
  | Bypass_explain_code bool

fun name_of :: "kwarg \<Rightarrow> string" where
  "name_of (Model v) = ''model''"
| "name_of (N_samples v) = ''n_samples''"
| "name_of (Log v) = ''log''"
| "name_of (Log_path v) = ''log_path''"
| "name_of (File_name v) = ''file_name''"
| "name_of (Overwrite v) = ''overwrite''"
| "name_of (Human_in_the_loop v) = ''human_in_the_loop''"
| "name_of (Bypass_recommended_steps v) = ''bypass_recommended_steps''"
| "name_of (Bypass_explain_code v) = ''bypass_explain_code''"

text \<open>\<^verbatim>\<open>self._params[k] = v\<close> and \<^verbatim>\<open>self._params[k]\<close>.\<close>

fun set_param :: "config \<Rightarrow> kwarg \<Rightarrow> config" where
  "set_param p (Model v) = p\<lparr>model := v\<rparr>"
| "set_param p (N_samples v) = p\<lparr>n_samples := v\<rparr>"
| "set_param p (Log v) = p\<lparr>log := v\<rparr>"
| "set_param p (Log_path v) = p\<lparr>log_path := v\<rparr>"
| "set_param p (File_name v) = p\<lparr>file_name := v\<rparr>"
| "set_param p (Overwrite v) = p\<lparr>overwrite := v\<rparr>"
| "set_param p (Human_in_the_loop v) = p\<lparr>human_in_the_loop := v\<rparr>"
| "set_param p (Bypass_recommended_steps v) = p\<lparr>bypass_recommended_steps := v\<rparr>"
| "set_param p (Bypass_explain_code v) = p\<lparr>bypass_explain_code := v\<rparr>"

definition get_param :: "config \<Rightarrow> string \<Rightarrow> kwarg option" where
  "get_param p k =
     map_of
       [(''model'', Model (model p)), (''n_samples'', N_samples (n_samples p)),
        (''log'', Log (log p)), (''log_path'', Log_path (log_path p)),
        (''file_name'', File_name (file_name p)), (''overwrite'', Overwrite (overwrite p)),
        (''human_in_the_loop'', Human_in_the_loop (human_in_the_loop p)),
        (''bypass_recommended_steps'', Bypass_recommended_steps (bypass_recommended_steps p)),
        (''bypass_explain_code'', Bypass_explain_code (bypass_explain_code p))] k"

definition update_params :: "agent \<Rightarrow> kwarg list \<Rightarrow> world \<Rightarrow> agent \<times> world" where
  "update_params self kwargs w =
     (let self1 = self\<lparr>params := foldl set_param (params self) kwargs\<rparr>;
          (g, self2, w1) = make_compiled_graph self1 w
      in (self2\<lparr>compiled_graph := g\<rparr>, w1))"





text \<open>
  The accessors test \<^verbatim>\<open>self.response\<close> for truth and read it with \<^verbatim>\<open>.get\<close>, a method
  that only a dictionary has.
\<close>

fun response_truthy :: "response \<Rightarrow> bool" where
  "response_truthy NoResponse = False"
| "response_truthy (Final d) = (d \<noteq> [])"
| "response_truthy (Coroutine inp kwargs) = True"

fun response_get :: "response \<Rightarrow> string \<Rightarrow> pyval \<Rightarrow> error + pyval" where
  "response_get (Final d) k dflt = Inr (dict_get d k dflt)"
| "response_get NoResponse k dflt = Inl AttributeError"
| "response_get (Coroutine inp kwargs) k dflt = Inl AttributeError"

text \<open>An f-string field: a string is inserted as it is, another value by its \<^verbatim>\<open>str\<close>.\<close>

definition format_value :: "collaborators \<Rightarrow> pyval \<Rightarrow> string" where
  "format_value ext v = (case v of VStr s \<Rightarrow> s | _ \<Rightarrow> py_repr ext v)"

definition explain_visualization_steps :: "agent \<Rightarrow> error + pyval" where
  "explain_visualization_steps self =
     (if response_truthy (response self) then response_get (response self) ''messages'' (VList [])
      else Inr (VList []))"

definition get_log_summary :: "collaborators \<Rightarrow> agent \<Rightarrow> bool \<Rightarrow> error + pyval" where
  "get_log_summary ext self markdown =
     (if response_truthy (response self) then
        (case response_get (response self) ''data_visualization_function_path'' VNone of
           Inl e \<Rightarrow> Inl e
         | Inr path \<Rightarrow>
             (if py_truthy path then
                (let log_details = ''Log Path: '' @ format_value ext path
                 in if markdown then Inr (VMarkdown log_details) else Inr (VStr log_details))
              else Inr VNone))
      else Inr VNone)"

definition get_plotly_graph :: "collaborators \<Rightarrow> agent \<Rightarrow> error + pyval" where
  "get_plotly_graph ext self =
     (if response_truthy (response self) then
        (case response_get (response self) ''plotly_graph'' VNone of
           Inl e \<Rightarrow> Inl e
         | Inr v \<Rightarrow> Inr (plotly_from_dict ext v))
      else Inr VNone)"

definition get_data_raw :: "agent \<Rightarrow> error + pyval" where
  "get_data_raw self =
     (if response_truthy (response self) then
        (case response_get (response self) ''data_raw'' VNone of
           Inl e \<Rightarrow> Inl e
         | Inr v \<Rightarrow> (if py_truthy v then Inr (VFrame v) else Inr VNone))
      else Inr VNone)"

definition get_data_visualization_function :: "collaborators \<Rightarrow> agent \<Rightarrow> bool \<Rightarrow> error + pyval" where
  "get_data_visualization_function ext self markdown =
     (if response_truthy (response self) then
        (case response_get (response self) ''data_visualization_function'' (VStr []) of
           Inl e \<Rightarrow> Inl e
         | Inr func_code \<Rightarrow>
             (if markdown then
                Inr (VMarkdown (''```python'' @ [newline] @ format_value ext func_code @ [newline] @ ''```''))
              else Inr func_code))
      else Inr VNone)"

definition get_recommended_visualization_steps :: "collaborators \<Rightarrow> agent \<Rightarrow> bool \<Rightarrow> error + pyval" where
  "get_recommended_visualization_steps ext self markdown =
     (if response_truthy (response self) then
        (case response_get (response self) ''recommended_steps'' (VStr []) of
           Inl e \<Rightarrow> Inl e
         | Inr steps \<Rightarrow>
             (if markdown then Inr (VMarkdown (format_value ext steps)) else Inr steps))
      else Inr VNone)"

definition get_response :: "agent \<Rightarrow> response" where
  "get_response self = response self"


section \<open>Concrete collaborators for evaluation\<close>

text \<open>
  A model that answers every prompt with the same padded text, a sandbox in which the
  generated function always fails, and an empty world.
\<close>

definition fixed_llm :: llm where
  "fixed_llm p inputs = '' use a bar chart ''"

definition failing_collaborators :: collaborators where
  "failing_collaborators =
     \<lparr>get_dataframe_summary = (\<lambda>dfs n. [''summary'']),
      format_agent_name = (\<lambda>name. name),
      PythonOutputParser = (\<lambda>text. text),
      relocate_imports_inside_function = (\<lambda>code. code),
      add_comments_to_top = (\<lambda>code name. code),
      plotly_from_dict = (\<lambda>v. v),
      run_agent_function = (\<lambda>code name data. Inl ''boom''),
      unique_file_name = (\<lambda>existing d name. name),
      py_repr = (\<lambda>v. [])\<rparr>"

definition blank_world :: world where
  "blank_world = \<lparr>cwd = ''/home'', stdout = [], dirs = [], files = [], summary_calls = 0\<rparr>"

text \<open>An agent that holds the response of an earlier invocation.\<close>

definition sample_agent :: agent where
  "sample_agent =
     \<lparr>params = default_config fixed_llm,
      compiled_graph = fst (make_data_visualization_agent (default_config fixed_llm) blank_world),
      response = Final [(''recommended_steps'', VStr ''steps'')]\<rparr>"


definition plain_graph :: graph where
  "plain_graph = fst (make_data_visualization_agent (default_config fixed_llm) blank_world)"






section \<open>Properties of steps and runs\<close>

lemma step_halted: "halted c \<Longrightarrow> step ext g c = c"
  by (simp add: step_def)

lemma run_halted: "halted c \<Longrightarrow> run ext g c = c"
  by (simp add: run.simps [of ext g c])

lemma run_unfold: "\<not> halted c \<Longrightarrow> run ext g c = run ext g (step ext g c)"
  by (simp add: run.simps [of ext g c])



lemma run_is_funpow: "\<exists>n. run ext g c = (step ext g ^^ n) c"
proof (induction ext g c rule: run.induct)
  case (1 ext g c)
  show ?case
  proof (cases "halted c")
    case True
    then have "run ext g c = (step ext g ^^ 0) c" by (simp add: run_halted)
    then show ?thesis by blast
  next
    case False
    with 1 obtain n where "run ext g (step ext g c) = (step ext g ^^ n) (step ext g c)" by blast
    then have "run ext g c = (step ext g ^^ Suc n) c"
      using False by (simp add: funpow_swap1 run_unfold)
    then show ?thesis by blast
  qed
qed


text \<open>Facts about the graph that the constructor returns.\<close>

lemma made_graph:
  "error_key (fst (make_data_visualization_agent p w)) = ''data_visualization_error''"
  "review_enabled (fst (make_data_visualization_agent p w)) = human_in_the_loop p"
  "explain_enabled (fst (make_data_visualization_agent p w)) = (\<not> bypass_explain_code p)"
  "entry_point (fst (make_data_visualization_agent p w))
     = (if bypass_recommended_steps p \<and> \<not> human_in_the_loop p then Chart_generator else Chart_instructor)"
  "log (closure (fst (make_data_visualization_agent p w))) = log p"
  "bypass_explain_code (closure (fst (make_data_visualization_agent p w))) = bypass_explain_code p"
  by (auto simp: make_data_visualization_agent_def create_coding_agent_graph_def Let_def split_def)





















text \<open>Steps and runs of a graph whose node functions have logging disabled.\<close>

lemma quiet_chart_instructor:
  "dirs (snd (chart_instructor ext c s w)) = dirs w \<and> files (snd (chart_instructor ext c s w)) = files w"
  by (simp add: chart_instructor_def Let_def split_def summarize_def print_def)

lemma quiet_chart_generator:
  "\<not> log c \<Longrightarrow>
   dirs (snd (chart_generator ext c s w)) = dirs w \<and> files (snd (chart_generator ext c s w)) = files w
   \<and> state_get (apply_update s (fst (chart_generator ext c s w))) ''data_visualization_function_path'' = VNone"
  by (simp add: chart_generator_def log_ai_function_def Let_def split_def summarize_def print_def
      state_get_update)

lemma quiet_fix:
  "\<not> log c \<Longrightarrow> fix_data_visualization_code ext c s w = Inr (upd, w1) \<Longrightarrow>
   w1 = w \<and> map fst upd = [''data_visualization_function'', ''retry_count'']"
  by (auto simp: fix_data_visualization_code_def node_func_fix_agent_code_def Let_def
      split: pyval.splits)

lemma keys_human_review:
  "set (map fst (snd (human_review c s v))) \<subseteq> {''user_instructions''}"
  by (simp add: human_review_def node_func_human_review_def)

lemma step_quiet:
  assumes nolog: "\<not> log (closure g)"
    and path: "state_get (st c) ''data_visualization_function_path'' = VNone"
  shows "state_get (st (step ext g c)) ''data_visualization_function_path'' = VNone
       \<and> dirs (wd (step ext g c)) = dirs (wd c)
       \<and> files (wd (step ext g c)) = files (wd c)"
proof (cases "halted c")
  case True
  then show ?thesis using path by (simp add: step_halted)
next
  case False
  show ?thesis
  proof (cases "at c")
    case Chart_instructor
    then show ?thesis using False path quiet_chart_instructor [of ext "closure g" "st c" "wd c"]
      by (simp add: step_def advance_def Let_def split_def
          state_get_apply_update_other keys_chart_instructor)
  next
    case Human_review
    have "state_get (apply_update (st c) (snd (human_review (closure g) (st c) v)))
            ''data_visualization_function_path'' = VNone" for v
      using path keys_human_review [of "closure g" "st c" v]
      by (subst state_get_apply_update_other) auto
    then show ?thesis using False Human_review
      by (simp add: step_def halted_def Let_def split_def split: list.splits)
  next
    case Chart_generator
    then show ?thesis using False quiet_chart_generator [OF nolog, of ext "st c" "wd c"]
      by (simp add: step_def advance_def Let_def split_def)
  next
    case Execute_data_visualization_code
    then show ?thesis using False path
      by (simp add: step_def advance_def Let_def state_get_apply_update_other keys_execute)
  next
    case Fix_data_visualization_code
    show ?thesis
    proof (cases "fix_data_visualization_code ext (closure g) (st c) (wd c)")
      case (Inl e)
      then show ?thesis using False Fix_data_visualization_code path
        by (simp add: step_def)
    next
      case (Inr r)
      obtain upd w1 where r: "r = (upd, w1)" by (cases r)
      from quiet_fix [OF nolog Inr [unfolded r]]
      have q: "w1 = wd c" "map fst upd = [''data_visualization_function'', ''retry_count'']"
        by simp_all
      show ?thesis using False Fix_data_visualization_code path Inr r q
        by (simp add: step_def advance_def Let_def state_get_apply_update_other)
    qed
  next
    case Explain_data_visualization_code
    then show ?thesis using False path
      by (simp add: step_def advance_def Let_def state_get_apply_update_other keys_explain)
  next
    case End
    then show ?thesis using False by (simp add: halted_def)
  qed
qed

lemma funpow_quiet:
  assumes nolog: "\<not> log (closure g)"
    and path: "state_get (st c) ''data_visualization_function_path'' = VNone"
  shows "state_get (st ((step ext g ^^ n) c)) ''data_visualization_function_path'' = VNone
       \<and> dirs (wd ((step ext g ^^ n) c)) = dirs (wd c)
       \<and> files (wd ((step ext g ^^ n) c)) = files (wd c)"
proof (induction n)
  case 0
  then show ?case using path by simp
next
  case (Suc n)
  then show ?case using step_quiet [OF nolog, where c = "(step ext g ^^ n) c" and ext = ext] by simp
qed

lemma run_quiet:
  assumes nolog: "\<not> log (closure g)"
    and path: "state_get (st c) ''data_visualization_function_path'' = VNone"
  shows "state_get (st (run ext g c)) ''data_visualization_function_path'' = VNone
       \<and> dirs (wd (run ext g c)) = dirs (wd c)
       \<and> files (wd (run ext g c)) = files (wd c)"
proof -
  obtain n where "run ext g c = (step ext g ^^ n) c" using run_is_funpow by blast
  then show ?thesis using funpow_quiet [OF nolog path, where ext = ext and n = n] by simp
qed

lemma construction_quiet:
  "\<not> log p \<Longrightarrow>
   dirs (snd (make_data_visualization_agent p w)) = dirs w
   \<and> files (snd (make_data_visualization_agent p w)) = files w"
  by (simp add: make_data_visualization_agent_def Let_def split_def print_def)

lemma initial_path_absent:
  "state_get (st (initial_run_state g (agent_input ui d m r) w vs)) ''data_visualization_function_path'' = VNone"
  "wd (initial_run_state g inp w vs) = w"
  by (simp_all add: initial_run_state_def agent_input_def state_get_update state_get_Cons state_get_Nil)











text \<open>Logging never calls the summariser.\<close>

lemma summary_calls_log_ai_function:
  "summary_calls (snd (log_ai_function ext code fname enabled directory overwr w)) = summary_calls w"
  by (simp add: log_ai_function_def Let_def write_file_def)


text \<open>Reading a parameter after a sequence of assignments.\<close>

lemma get_param_set_param_other:
  "name_of kv \<noteq> k \<Longrightarrow> get_param (set_param p kv) k = get_param p k"
  by (cases kv) (auto simp: get_param_def)

lemma get_param_set_param_same:
  "get_param (set_param p kv) (name_of kv) = Some kv"
  by (cases kv) (simp_all add: get_param_def)

lemma get_param_foldl_other:
  "k \<notin> set (map name_of kwargs) \<Longrightarrow> get_param (foldl set_param p kwargs) k = get_param p k"
  by (induction kwargs arbitrary: p) (auto simp: get_param_set_param_other)

lemma get_param_foldl_named:
  "distinct (map name_of kwargs) \<Longrightarrow> kv \<in> set kwargs \<Longrightarrow>
   get_param (foldl set_param p kwargs) (name_of kv) = Some kv"
proof (induction kwargs arbitrary: p)
  case Nil
  then show ?case by simp
next
  case (Cons x xs)
  show ?case
  proof (cases "kv = x")
    case True
    with Cons.prems have "name_of x \<notin> set (map name_of xs)" by simp
    then show ?thesis using True
      by (simp add: get_param_foldl_other get_param_set_param_same)
  next
    case False
    with Cons show ?thesis by simp
  qed
qed




section \<open>Accessors before any invocation\<close>

text \<open>
  C9. While \<^verbatim>\<open>self.response\<close> is \<^verbatim>\<open>None\<close>, no accessor raises: \<^verbatim>\<open>get_plotly_graph\<close>,
  \<^verbatim>\<open>get_data_raw\<close>, \<^verbatim>\<open>get_data_visualization_function\<close>,
  \<^verbatim>\<open>get_recommended_visualization_steps\<close>, \<^verbatim>\<open>get_log_summary\<close> and \<^verbatim>\<open>get_response\<close>
  return \<^verbatim>\<open>None\<close>, and \<^verbatim>\<open>explain_visualization_steps\<close> returns the empty list.
\<close>

theorem accessors_default_without_response:
  assumes "response self = NoResponse"
  shows "get_plotly_graph ext self = Inr VNone
       \<and> get_data_raw self = Inr VNone
       \<and> get_data_visualization_function ext self markdown = Inr VNone
       \<and> get_recommended_visualization_steps ext self markdown = Inr VNone
       \<and> get_log_summary ext self markdown = Inr VNone
       \<and> get_response self = NoResponse
       \<and> explain_visualization_steps self = Inr (VList [])"
  using assms
  by (simp add: get_plotly_graph_def get_data_raw_def get_data_visualization_function_def
      get_recommended_visualization_steps_def get_log_summary_def get_response_def
      explain_visualization_steps_def)

theorem accessors_default_without_response_witness:
  "response (fst (init (default_config fixed_llm) blank_world)) = NoResponse
   \<and> get_plotly_graph failing_collaborators (fst (init (default_config fixed_llm) blank_world)) = Inr VNone
   \<and> get_data_raw (fst (init (default_config fixed_llm) blank_world)) = Inr VNone
   \<and> get_log_summary failing_collaborators (fst (init (default_config fixed_llm) blank_world)) True = Inr VNone
   \<and> explain_visualization_steps (fst (init (default_config fixed_llm) blank_world)) = Inr (VList [])"
proof -
  have h: "response (fst (init (default_config fixed_llm) blank_world)) = NoResponse"
    by (simp add: init_def split_def Let_def)
  show ?thesis
    using h accessors_default_without_response [OF h, of failing_collaborators True]
    by simp
qed


section \<open>The instruction stage and \<^verbatim>\<open>recommended_steps\<close>\<close>

text \<open>
  C2, as stated: on a revisit of \<^verbatim>\<open>chart_instructor\<close> the new labeled block is appended to
  the stored \<^verbatim>\<open>recommended_steps\<close>, whose previous content stays part of the new value.
  The code does otherwise. With \<^verbatim>\<open>old steps\<close> stored and a model that answers
  \<^verbatim>\<open>use a bar chart\<close>, the merged state holds the labeled block alone, and the old text
  occurs nowhere in it.
\<close>

theorem chart_instructor_appends_counterexample:
  "state_get
     (apply_update [(''recommended_steps'', VStr ''old steps'')]
        (fst (chart_instructor failing_collaborators (default_config fixed_llm)
                [(''recommended_steps'', VStr ''old steps'')] blank_world)))
     ''recommended_steps''
   = VStr (recommended_steps_label @ ''use a bar chart'')
   \<and> \<not> sublist ''old steps'' (recommended_steps_label @ ''use a bar chart'')"
  by (simp add: chart_instructor_def Let_def split_def summarize_def state_get_update
      state_get_def dict_get_def fixed_llm_def default_config_def strip_def is_space_def
      recommended_steps_label_def newline_def sublist_code)

text \<open>
  C2, amended: every pass of \<^verbatim>\<open>chart_instructor\<close> replaces the stored \<^verbatim>\<open>recommended_steps\<close>
  by the new labeled block, the label followed by the stripped answer of the model. The
  previous text is not kept in the state; it is given to the model as the input variable
  \<^verbatim>\<open>recommended_steps\<close> of the prompt.
\<close>

theorem chart_instructor_replaces_recommended_steps:
  "state_get (apply_update state (fst (chart_instructor ext c state w))) ''recommended_steps''
   = VStr (recommended_steps_label @
       strip (model c RecommendStepsPrompt
         [(''user_instructions'', state_get state ''user_instructions''),
          (''recommended_steps'', state_get state ''recommended_steps''),
          (''all_datasets_summary'',
             VStr (join [newline, newline]
               (get_dataframe_summary ext [VFrame (state_get state ''data_raw'')] (n_samples c))))]))"
  by (simp add: chart_instructor_def Let_def split_def summarize_def state_get_update)

section \<open>The execution stage\<close>





section \<open>The review gate\<close>

text \<open>
  C4. At \<^verbatim>\<open>human_review\<close> the verdict \<^verbatim>\<open>yes\<close>, trimmed and in any case, moves the pipeline
  forward and leaves the state as it is: to \<^verbatim>\<open>explain_data_visualization_code\<close> when the
  explanation is enabled, to \<^verbatim>\<open>__end__\<close> when it is bypassed. Any other verdict is written
  into \<^verbatim>\<open>user_instructions\<close> and the pipeline returns to \<^verbatim>\<open>chart_instructor\<close>.
\<close>

theorem human_review_routes_by_verdict:
  "(if lower (strip verdict) = ''yes'' then
      fst (human_review c state verdict)
        = (if bypass_explain_code c then End else Explain_data_visualization_code)
      \<and> apply_update state (snd (human_review c state verdict)) = state
    else
      fst (human_review c state verdict) = Chart_instructor
      \<and> state_get (apply_update state (snd (human_review c state verdict))) ''user_instructions''
          = VStr verdict)"
  by (simp add: human_review_def node_func_human_review_def state_get_update)

theorem human_review_routes_by_verdict_witness:
  "fst (human_review (default_config fixed_llm) [] ''  YES '') = Explain_data_visualization_code
   \<and> fst (human_review ((default_config fixed_llm)\<lparr>bypass_explain_code := True\<rparr>) [] ''yes'') = End
   \<and> fst (human_review (default_config fixed_llm) [] ''use a line chart'') = Chart_instructor
   \<and> state_get (apply_update [] (snd (human_review (default_config fixed_llm) [] ''use a line chart'')))
        ''user_instructions'' = VStr ''use a line chart''"
proof -
  have a: "lower (strip ''  YES '') = ''yes''" "lower (strip ''yes'') = ''yes''"
    by (simp_all add: strip_def is_space_def lower_def lower_char_def)
  have b: "lower (strip ''use a line chart'') \<noteq> ''yes''"
    by (simp add: strip_def is_space_def lower_def lower_char_def)
  show ?thesis
    using human_review_routes_by_verdict [of "''  YES ''" "default_config fixed_llm" "[]"]
      human_review_routes_by_verdict [of "''yes''" "(default_config fixed_llm)\<lparr>bypass_explain_code := True\<rparr>" "[]"]
      human_review_routes_by_verdict [of "''use a line chart''" "default_config fixed_llm" "[]"]
      a b
    by (simp add: default_config_def)
qed

section \<open>Construction of the graph\<close>

text \<open>
  C5. When the graph is built with \<^verbatim>\<open>human_in_the_loop\<close> and \<^verbatim>\<open>bypass_recommended_steps\<close>
  both set, the constructor returns a graph, without raising, in which the bypass is off
  for the node functions and for the router, the warning has been printed, the review
  gate is in the graph, and \<^verbatim>\<open>chart_instructor\<close> is the entry point.
\<close>

theorem conflict_resolved_at_construction:
  assumes "human_in_the_loop p" and "bypass_recommended_steps p"
  shows "\<not> bypass_recommended_steps (closure (fst (make_data_visualization_agent p w)))
       \<and> entry_point (fst (make_data_visualization_agent p w)) = Chart_instructor
       \<and> review_enabled (fst (make_data_visualization_agent p w))
       \<and> stdout (snd (make_data_visualization_agent p w))
           = stdout w @ [''Bypass recommended steps set to False to enable human in the loop.'']"
  using assms
  by (simp add: make_data_visualization_agent_def create_coding_agent_graph_def Let_def
      print_def makedirs_def)

theorem conflict_resolved_at_construction_witness:
  "human_in_the_loop ((default_config fixed_llm)\<lparr>human_in_the_loop := True, bypass_recommended_steps := True\<rparr>)
   \<and> bypass_recommended_steps ((default_config fixed_llm)\<lparr>human_in_the_loop := True, bypass_recommended_steps := True\<rparr>)
   \<and> entry_point (fst (make_data_visualization_agent
        ((default_config fixed_llm)\<lparr>human_in_the_loop := True, bypass_recommended_steps := True\<rparr>) blank_world))
       = Chart_instructor
   \<and> stdout (snd (make_data_visualization_agent
        ((default_config fixed_llm)\<lparr>human_in_the_loop := True, bypass_recommended_steps := True\<rparr>) blank_world))
       = [''Bypass recommended steps set to False to enable human in the loop.'']"
proof -
  let ?p = "(default_config fixed_llm)\<lparr>human_in_the_loop := True, bypass_recommended_steps := True\<rparr>"
  have h: "human_in_the_loop ?p" "bypass_recommended_steps ?p"
    by simp_all
  show ?thesis
    using h conflict_resolved_at_construction [OF h, of blank_world]
    by (simp add: blank_world_def)
qed


section \<open>The dataset summary\<close>

text \<open>
  C8, as stated: \<^verbatim>\<open>chart_instructor\<close> computes the dataset summary only if the state does not
  hold one yet. The code does otherwise. With a summary stored in the state, a pass of
  \<^verbatim>\<open>chart_instructor\<close> still calls the summariser.
\<close>

theorem summary_recomputed_counterexample:
  "state_get [(''all_datasets_summary'', VStr ''stored'')] ''all_datasets_summary'' = VStr ''stored''
   \<and> summary_calls blank_world = 0
   \<and> summary_calls (snd (chart_instructor failing_collaborators (default_config fixed_llm)
        [(''all_datasets_summary'', VStr ''stored'')] blank_world)) = 1"
  by (simp add: chart_instructor_def Let_def split_def summarize_def print_def blank_world_def
      state_get_def dict_get_def)

text \<open>
  C8, amended: every pass of \<^verbatim>\<open>chart_instructor\<close> calls the summariser once, whether or
  not a summary is stored, and stores the result. A pass of \<^verbatim>\<open>chart_generator\<close> calls it
  once when the instruction stage is bypassed; otherwise it computes nothing and keeps
  the stored summary.
\<close>

theorem summary_computed_by_stage:
  "summary_calls (snd (chart_instructor ext c state w)) = Suc (summary_calls w)
   \<and> state_get (apply_update state (fst (chart_instructor ext c state w))) ''all_datasets_summary''
       = VStr (join [newline, newline]
           (get_dataframe_summary ext [VFrame (state_get state ''data_raw'')] (n_samples c)))
   \<and> summary_calls (snd (chart_generator ext c state w))
       = (if bypass_recommended_steps c then Suc (summary_calls w) else summary_calls w)
   \<and> state_get (apply_update state (fst (chart_generator ext c state w))) ''all_datasets_summary''
       = (if bypass_recommended_steps c
          then VStr (join [newline, newline]
            (get_dataframe_summary ext [VFrame (state_get state ''data_raw'')] (n_samples c)))
          else state_get state ''all_datasets_summary'')"
  by (simp add: chart_instructor_def chart_generator_def Let_def split_def summarize_def print_def
      state_get_update summary_calls_log_ai_function)


section \<open>Updating the parameters\<close>

text \<open>
  C10. \<^verbatim>\<open>update_params\<close> changes the parameters named by its keyword arguments and no
  other: a parameter that is not named keeps its value, a named one takes the value
  given. The compiled graph is rebuilt from the updated parameters, the stored response
  is reset to \<^verbatim>\<open>None\<close>, and every accessor returns its empty default afterwards.
\<close>

theorem update_params_changes_named_only:
  "(\<forall>k. k \<notin> set (map name_of kwargs) \<longrightarrow>
        get_param (params (fst (update_params self kwargs w))) k = get_param (params self) k)
   \<and> (distinct (map name_of kwargs) \<longrightarrow>
        (\<forall>kv \<in> set kwargs. get_param (params (fst (update_params self kwargs w))) (name_of kv) = Some kv))
   \<and> compiled_graph (fst (update_params self kwargs w))
        = fst (make_data_visualization_agent (params (fst (update_params self kwargs w))) w)
   \<and> snd (update_params self kwargs w)
        = snd (make_data_visualization_agent (params (fst (update_params self kwargs w))) w)
   \<and> response (fst (update_params self kwargs w)) = NoResponse
   \<and> get_response (fst (update_params self kwargs w)) = NoResponse
   \<and> get_plotly_graph ext (fst (update_params self kwargs w)) = Inr VNone
   \<and> get_data_raw (fst (update_params self kwargs w)) = Inr VNone
   \<and> get_data_visualization_function ext (fst (update_params self kwargs w)) markdown = Inr VNone
   \<and> get_recommended_visualization_steps ext (fst (update_params self kwargs w)) markdown = Inr VNone
   \<and> get_log_summary ext (fst (update_params self kwargs w)) markdown = Inr VNone
   \<and> explain_visualization_steps (fst (update_params self kwargs w)) = Inr (VList [])"
proof -
  have p: "params (fst (update_params self kwargs w)) = foldl set_param (params self) kwargs"
    by (simp add: update_params_def make_compiled_graph_def Let_def split_def)
  have r: "response (fst (update_params self kwargs w)) = NoResponse"
    by (simp add: update_params_def make_compiled_graph_def Let_def split_def)
  have g: "compiled_graph (fst (update_params self kwargs w))
        = fst (make_data_visualization_agent (foldl set_param (params self) kwargs) w)"
    by (simp add: update_params_def make_compiled_graph_def Let_def split_def)
  have w: "snd (update_params self kwargs w)
        = snd (make_data_visualization_agent (foldl set_param (params self) kwargs) w)"
    by (simp add: update_params_def make_compiled_graph_def Let_def split_def)
  show ?thesis
    unfolding p g w
    using r
    by (simp add: get_param_foldl_other get_param_foldl_named get_response_def
        get_plotly_graph_def get_data_raw_def get_data_visualization_function_def
        get_recommended_visualization_steps_def get_log_summary_def explain_visualization_steps_def)
qed

theorem update_params_changes_named_only_witness:
  "''file_name'' \<notin> set (map name_of [Log True, N_samples 10])
   \<and> distinct (map name_of [Log True, N_samples 10])
   \<and> N_samples 10 \<in> set [Log True, N_samples 10]
   \<and> get_param (params (fst (update_params sample_agent [Log True, N_samples 10] blank_world))) ''file_name''
        = Some (File_name ''data_visualization.py'')
   \<and> get_param (params (fst (update_params sample_agent [Log True, N_samples 10] blank_world))) ''n_samples''
        = Some (N_samples 10)
   \<and> get_recommended_visualization_steps failing_collaborators sample_agent False = Inr (VStr ''steps'')
   \<and> get_recommended_visualization_steps failing_collaborators
        (fst (update_params sample_agent [Log True, N_samples 10] blank_world)) False = Inr VNone"
proof -
  have a: "''file_name'' \<notin> set (map name_of [Log True, N_samples 10])"
    "distinct (map name_of [Log True, N_samples 10])"
    "N_samples 10 \<in> set [Log True, N_samples 10]"
    by simp_all
  have b: "get_param (params sample_agent) ''file_name'' = Some (File_name ''data_visualization.py'')"
    by (simp add: sample_agent_def get_param_def default_config_def)
  have c: "get_recommended_visualization_steps failing_collaborators sample_agent False = Inr (VStr ''steps'')"
    by (simp add: get_recommended_visualization_steps_def sample_agent_def dict_get_def)
  show ?thesis
    using a b c
      update_params_changes_named_only [of "[Log True, N_samples 10]" sample_agent blank_world
        failing_collaborators False]
    by simp
qed



section \<open>The cycle of execution and repair\<close>






section \<open>Runs with logging disabled\<close>

text \<open>
  C7. When the graph is built with \<^verbatim>\<open>log=False\<close>, its construction creates no directory
  and writes no file, and in every state of every run started with the agent's input,
  after any number of steps and at the end, \<^verbatim>\<open>data_visualization_function_path\<close> is
  absent or \<^verbatim>\<open>None\<close> and the directories and files are those that existed before the
  graph was built.
\<close>

theorem logging_disabled_no_path_no_writes:
  fixes ext p w0 ui d max_retries retry_count vs
  defines "g \<equiv> fst (make_data_visualization_agent p w0)"
  defines "w1 \<equiv> snd (make_data_visualization_agent p w0)"
  defines "c0 \<equiv> initial_run_state g (agent_input ui d max_retries retry_count) w1 vs"
  assumes nolog: "\<not> log p"
  shows "dirs w1 = dirs w0 \<and> files w1 = files w0
       \<and> (\<forall>n. state_get (st ((step ext g ^^ n) c0)) ''data_visualization_function_path'' = VNone
              \<and> dirs (wd ((step ext g ^^ n) c0)) = dirs w0
              \<and> files (wd ((step ext g ^^ n) c0)) = files w0)
       \<and> state_get (st (run ext g c0)) ''data_visualization_function_path'' = VNone
       \<and> dirs (wd (run ext g c0)) = dirs w0
       \<and> files (wd (run ext g c0)) = files w0"
proof -
  have cl: "\<not> log (closure g)" using nolog by (simp add: g_def made_graph)
  have p0: "state_get (st c0) ''data_visualization_function_path'' = VNone"
    by (simp add: c0_def initial_path_absent)
  have w: "wd c0 = w1" by (simp add: c0_def initial_path_absent)
  have k: "dirs w1 = dirs w0 \<and> files w1 = files w0"
    using construction_quiet [OF nolog, of w0] by (simp add: w1_def)
  show ?thesis
    using k funpow_quiet [OF cl p0, where ext = ext] run_quiet [OF cl p0, where ext = ext] w by simp
qed

theorem logging_disabled_no_path_no_writes_witness:
  "\<not> log (default_config fixed_llm)
   \<and> state_get (st (run failing_collaborators plain_graph
        (initial_run_state plain_graph (agent_input (VStr ''plot x'') (VDict []) 1 0)
           (snd (make_data_visualization_agent (default_config fixed_llm) blank_world)) [])))
        ''data_visualization_function_path'' = VNone
   \<and> dirs (wd (run failing_collaborators plain_graph
        (initial_run_state plain_graph (agent_input (VStr ''plot x'') (VDict []) 1 0)
           (snd (make_data_visualization_agent (default_config fixed_llm) blank_world)) []))) = []
   \<and> files (wd (run failing_collaborators plain_graph
        (initial_run_state plain_graph (agent_input (VStr ''plot x'') (VDict []) 1 0)
           (snd (make_data_visualization_agent (default_config fixed_llm) blank_world)) []))) = []"
proof -
  have h: "\<not> log (default_config fixed_llm)"
    by (simp add: default_config_def)
  show ?thesis
    using h logging_disabled_no_path_no_writes [OF h, where ?w0.0 = blank_world
        and ext = failing_collaborators and ui = "VStr ''plot x''" and d = "VDict []"
        and max_retries = 1 and retry_count = 0 and vs = "[]"]
    by (simp add: plain_graph_def blank_world_def)
qed


section \<open>The two calling conventions\<close>






end
